theory Spec2Isabelle
  imports Main "HOL-Library.Sublist"
begin

section \<open>The MediaScreen watermark upload server (image-upload/server.py)\<close>

text \<open>
  A shallow embedding of \<^verbatim>\<open>src/image-upload/server.py\<close>. A Python \<^verbatim>\<open>str\<close> and a
  \<^verbatim>\<open>bytes\<close> value are both a \<^typ>\<open>string\<close>: a list of characters, each a code point
  (or a byte) below 256. Python's unbounded integers are \<^typ>\<open>int\<close>. An exception is the
  text \<^verbatim>\<open>str(e)\<close> it carries; a computation that may raise returns its value on the
  right of a sum and the exception text on the left, or pairs what it did with an
  optional exception text.
\<close>

subsection \<open>Strings: the methods of \<^verbatim>\<open>str\<close> the server calls\<close>

definition startswith :: "string \<Rightarrow> string \<Rightarrow> bool" where
  "startswith s p = (take (length p) s = p)"

definition endswith :: "string \<Rightarrow> string \<Rightarrow> bool" where
  "endswith s e = (length e \<le> length s \<and> drop (length s - length e) s = e)"

text \<open>\<^verbatim>\<open>str.lower\<close> on code points below 256: the ASCII capitals and the Latin-1
  capitals (U+00C0 to U+00DE without the multiplication sign U+00D7) move up by 32.\<close>

definition lower_char :: "char \<Rightarrow> char" where
  "lower_char c =
     (let n = (of_char c :: nat)
      in if (65 \<le> n \<and> n \<le> 90) \<or> (192 \<le> n \<and> n \<le> 222 \<and> n \<noteq> 215)
         then char_of (n + 32) else c)"

definition lower :: "string \<Rightarrow> string" where
  "lower s = map lower_char s"

fun str_join :: "string \<Rightarrow> string list \<Rightarrow> string" where
  "str_join sep [] = []"
| "str_join sep [x] = x"
| "str_join sep (x # y # ys) = x @ sep @ str_join sep (y # ys)"

text \<open>\<^verbatim>\<open>str(n)\<close> for an integer: its decimal digits, with a sign when negative.\<close>

definition digit :: "nat \<Rightarrow> char" where
  "digit d = ''0123456789'' ! d"

fun str_nat :: "nat \<Rightarrow> string" where
  "str_nat n = (if n < 10 then [digit n] else str_nat (n div 10) @ [digit (n mod 10)])"

declare str_nat.simps [simp del]

definition str_int :: "int \<Rightarrow> string" where
  "str_int i = (if i < 0 then CHR ''-'' # str_nat (nat (- i)) else str_nat (nat i))"

subsection \<open>\<^verbatim>\<open>json.dumps\<close> on the dictionaries the server sends\<close>

text \<open>
  Every dictionary the server passes to \<^verbatim>\<open>json.dumps\<close> is flat, with string keys and
  string or integer values, in insertion order. The encoder (default separators,
  \<^verbatim>\<open>ensure_ascii\<close>) writes a string between double quotes and escapes the double quote,
  the backslash and every character outside the printable ASCII range, so its output is
  ASCII and \<^verbatim>\<open>.encode('utf-8')\<close> leaves it as it is.
\<close>

datatype jvalue = JStr string | JInt int

type_synonym json = "(string \<times> jvalue) list"

definition hex_digit :: "nat \<Rightarrow> char" where
  "hex_digit d = ''0123456789abcdef'' ! d"

definition json_escape :: "char \<Rightarrow> string" where
  "json_escape c =
     (let n = (of_char c :: nat)
      in if n = 0x22 then [CHR 0x5C, CHR 0x22]
         else if n = 0x5C then [CHR 0x5C, CHR 0x5C]
         else if n = 0x0A then [CHR 0x5C, CHR ''n'']
         else if n = 0x0D then [CHR 0x5C, CHR ''r'']
         else if n = 0x09 then [CHR 0x5C, CHR ''t'']
         else if n = 0x08 then [CHR 0x5C, CHR ''b'']
         else if n = 0x0C then [CHR 0x5C, CHR ''f'']
         else if n < 0x20 \<or> 0x7E < n
           then [CHR 0x5C, CHR ''u'', CHR ''0'', CHR ''0'', hex_digit (n div 16), hex_digit (n mod 16)]
         else [c])"

definition json_string :: "string \<Rightarrow> string" where
  "json_string s = [CHR 0x22] @ concat (map json_escape s) @ [CHR 0x22]"

fun json_value :: "jvalue \<Rightarrow> string" where
  "json_value (JStr s) = json_string s"
| "json_value (JInt i) = str_int i"

definition json_dumps :: "json \<Rightarrow> string" where
  "json_dumps d =
     ''{'' @ str_join '', '' (map (\<lambda>(k, v). json_string k @ '': '' @ json_value v) d) @ ''}''"

subsection \<open>Requests, replies and the parsed form\<close>

text \<open>
  A request as the handler sees it: \<^verbatim>\<open>self.path\<close>, \<^verbatim>\<open>self.headers\<close> (the header
  lines in order) and the body still unread in \<^verbatim>\<open>self.rfile\<close>. Header names are matched
  without regard to case and the first match wins, as \<^verbatim>\<open>email.message.Message.get\<close>
  does.
\<close>

record request =
  path :: string
  headers :: "(string \<times> string) list"
  rfile :: string

fun headers_get :: "(string \<times> string) list \<Rightarrow> string \<Rightarrow> string option" where
  "headers_get [] key = None"
| "headers_get ((k, v) # hs) key =
     (if lower k = lower key then Some v else headers_get hs key)"

text \<open>
  What the handler sends: a reply written by \<^verbatim>\<open>send_json_response\<close> or
  \<^verbatim>\<open>serve_file\<close> (status, the headers the source sets, body), or the error page of
  \<^verbatim>\<open>BaseHTTPRequestHandler.send_error\<close> (status and message). The status line and the
  \<^verbatim>\<open>Server\<close> and \<^verbatim>\<open>Date\<close> headers that the standard library adds are left out.
\<close>

datatype reply =
    Response int "(string \<times> string) list" string
  | ErrorPage int string

fun status_of :: "reply \<Rightarrow> int" where
  "status_of (Response code hs b) = code"
| "status_of (ErrorPage code msg) = code"

text \<open>
  \<^verbatim>\<open>cgi.FieldStorage\<close> of the standard library, as far as the handler uses it: the
  parsed parts of a multipart body in order, each with the \<^verbatim>\<open>name\<close> and
  \<^verbatim>\<open>filename\<close> of its Content-Disposition (\<^verbatim>\<open>None\<close> when absent) and its payload,
  which \<^verbatim>\<open>file.read()\<close> returns (the field \<^verbatim>\<open>file\<close> is \<open>fileobj\<close> here). \<^verbatim>\<open>key in form\<close> holds when some part has that name;
  \<^verbatim>\<open>form[key]\<close> raises KeyError when none has, is the part when exactly one has, and
  is the list of the parts when several have.
\<close>

record part =
  name :: "string option"
  filename :: "string option"
  fileobj :: string

type_synonym form = "part list"

datatype lookup = Item part | Items "part list"

definition form_contains :: "form \<Rightarrow> string \<Rightarrow> bool" where
  "form_contains form key = list_ex (\<lambda>item. name item = Some key) form"

definition form_getitem :: "form \<Rightarrow> string \<Rightarrow> string + lookup" where
  "form_getitem form key =
     (case filter (\<lambda>item. name item = Some key) form of
        [] \<Rightarrow> Inl ([CHR 0x27] @ key @ [CHR 0x27])
      | [item] \<Rightarrow> Inr (Item item)
      | item # item' # items \<Rightarrow> Inr (Items (item # item' # items)))"

text \<open>The text of the AttributeError that \<^verbatim>\<open>fileitem.filename\<close> raises when
  \<^verbatim>\<open>fileitem\<close> is a list.\<close>

definition list_has_no_filename :: string where
  "list_has_no_filename =
     [CHR 0x27] @ ''list'' @ [CHR 0x27] @ '' object has no attribute '' @
     [CHR 0x27] @ ''filename'' @ [CHR 0x27]"

subsection \<open>Effects and the state they act on\<close>

text \<open>
  A handler is a function from the request (and the outcomes of the calls that may fail)
  to the list of effects it performs, in order. The state holds the files of the working
  directory, what has been sent to clients and what has been printed. Running a prefix of
  a handler's effects gives a state the handler passes through.
\<close>

datatype effect =
    ParseBody
  | ReadPayload
  | OpenW string
  | WriteF string string
  | CloseF string
  | Send reply
  | Print string

record state =
  files :: "string \<rightharpoonup> string"
  sent :: "reply list"
  stdout :: "string list"

fun apply_effect :: "state \<Rightarrow> effect \<Rightarrow> state" where
  "apply_effect s ParseBody = s"
| "apply_effect s ReadPayload = s"
| "apply_effect s (OpenW p) = s\<lparr>files := (files s)(p \<mapsto> [])\<rparr>"
| "apply_effect s (WriteF p bs) =
     s\<lparr>files := (files s)(p \<mapsto> (case files s p of None \<Rightarrow> bs | Some old \<Rightarrow> old @ bs))\<rparr>"
| "apply_effect s (CloseF p) = s"
| "apply_effect s (Send r) = s\<lparr>sent := sent s @ [r]\<rparr>"
| "apply_effect s (Print line) = s\<lparr>stdout := stdout s @ [line]\<rparr>"

definition run :: "state \<Rightarrow> effect list \<Rightarrow> state" where
  "run s es = foldl apply_effect s es"

fun touches :: "string \<Rightarrow> effect \<Rightarrow> bool" where
  "touches p (OpenW q) = (q = p)"
| "touches p (WriteF q bs) = (q = p)"
| "touches p (CloseF q) = (q = p)"
| "touches p e = False"

text \<open>
  The outcomes of the calls that may raise. \<^verbatim>\<open>FieldStorage\<close> is the parser: the form,
  or the text of the exception it raised. \<^verbatim>\<open>read_fails\<close> is the exception of
  \<^verbatim>\<open>fileitem.file.read()\<close>, if any. \<^verbatim>\<open>open_fails p\<close> is the exception of opening
  \<^verbatim>\<open>p\<close>, if any; \<^verbatim>\<open>write_fails p = Some (n, e)\<close> says that writing to \<^verbatim>\<open>p\<close> raises
  \<^verbatim>\<open>e\<close> after \<^verbatim>\<open>n\<close> bytes have reached the file. Sending a reply and printing
  do not fail here: the connection to the client and the standard output stay open (their
  failures are added further down, in \<open>handle_upload_io\<close>).
\<close>

record env =
  FieldStorage :: "request \<Rightarrow> string + form"
  read_fails :: "string option"
  open_fails :: "string \<Rightarrow> string option"
  write_fails :: "string \<Rightarrow> (nat \<times> string) option"

subsection \<open>UploadHandler\<close>

definition send_json_response :: "json \<Rightarrow> int \<Rightarrow> effect" where
  "send_json_response data status =
     (let response = json_dumps data
      in Send (Response status
           [(''Content-type'', ''application/json''),
            (''Content-length'', str_int (int (length response)))]
           response))"

definition send_error :: "int \<Rightarrow> string \<Rightarrow> effect" where
  "send_error code message = Send (ErrorPage code message)"

text \<open>\<^verbatim>\<open>serve_file\<close>: a missing file is FileNotFoundError, any other failure of
  \<^verbatim>\<open>open\<close> is caught by the second handler.\<close>

definition serve_file :: "env \<Rightarrow> (string \<rightharpoonup> string) \<Rightarrow> string \<Rightarrow> string \<Rightarrow> effect list" where
  "serve_file env fs fname content_type =
     (case fs fname of
        None \<Rightarrow> [send_error 404 (''File '' @ fname @ '' not found'')]
      | Some content \<Rightarrow>
          (case open_fails env fname of
             Some e \<Rightarrow> [send_error 500 (''Error serving file: '' @ e)]
           | None \<Rightarrow>
               [Send (Response 200
                  [(''Content-type'', content_type),
                   (''Content-length'', str_int (int (length content)))]
                  content)]))"

definition do_GET :: "env \<Rightarrow> (string \<rightharpoonup> string) \<Rightarrow> request \<Rightarrow> effect list" where
  "do_GET env fs req =
     (if path req = ''/'' \<or> path req = ''/index.html'' then
        serve_file env fs ''index.html'' ''text/html''
      else if path req = ''/status'' then
        [send_json_response [(''status'', JStr ''ready'')] 200]
      else [send_error 404 ''File not found''])"

text \<open>\<^verbatim>\<open>with open(p, mode) as f: f.write(data)\<close>: what it does to the file, and
  the exception it raises, if any.\<close>

definition write_file :: "env \<Rightarrow> string \<Rightarrow> string \<Rightarrow> effect list \<times> string option" where
  "write_file env p data =
     (case open_fails env p of
        Some e \<Rightarrow> ([], Some e)
      | None \<Rightarrow>
          (case write_fails env p of
             Some (n, e) \<Rightarrow> ([OpenW p, WriteF p (take n data), CloseF p], Some e)
           | None \<Rightarrow> ([OpenW p, WriteF p data, CloseF p], None)))"

definition allowed_extensions :: "string list" where
  "allowed_extensions = [''.png'', ''.jpg'', ''.jpeg'', ''.gif'', ''.bmp'']"

text \<open>The last steps of the \<^verbatim>\<open>try\<close> block of \<^verbatim>\<open>handle_upload\<close>, from the write
  of the watermark on: the two files, the reply and the log line.\<close>

definition save_upload :: "env \<Rightarrow> string \<Rightarrow> effect list \<times> string option" where
  "save_upload env file_data =
     (case write_file env ''watermark.png'' file_data of
        (ws, Some e) \<Rightarrow> (ws, Some e)
      | (ws, None) \<Rightarrow>
          (case write_file env ''upload_complete.flag'' ''success'' of
             (fl, Some e) \<Rightarrow> (ws @ fl, Some e)
           | (fl, None) \<Rightarrow>
               (ws @ fl @
                [send_json_response
                   [(''status'', JStr ''success''),
                    (''message'', JStr ''File uploaded successfully''),
                    (''filename'', JStr ''watermark.png''),
                    (''size'', JInt (int (length file_data)))] 200,
                 Print (''Upload completed: '' @ str_int (int (length file_data)) @
                   '' bytes saved as watermark.png'')],
                None)))"

text \<open>The \<^verbatim>\<open>try\<close> block from the extension check on, for a part with a filename.\<close>

definition check_and_save :: "env \<Rightarrow> part \<Rightarrow> effect list \<times> string option" where
  "check_and_save env fileitem =
     (let fname = lower (the (filename fileitem))
      in if \<not> list_ex (endswith fname) allowed_extensions then
           ([send_json_response
               [(''error'', JStr (''Invalid file type. Allowed: '' @
                    str_join '', '' allowed_extensions))] 400],
            None)
         else
           (case read_fails env of
              Some e \<Rightarrow> ([ReadPayload], Some e)
            | None \<Rightarrow>
                (let file_data = fileobj fileitem
                 in if int (length file_data) > 10 * 1024 * 1024 then
                      ([ReadPayload,
                        send_json_response [(''error'', JStr ''File too large (max 10MB)'')] 400],
                       None)
                    else
                      (case save_upload env file_data of
                         (es, r) \<Rightarrow> (ReadPayload # es, r)))))"

text \<open>The whole \<^verbatim>\<open>try\<close> block of \<^verbatim>\<open>handle_upload\<close>: its effects, and the
  exception that ended it, if one did.\<close>

definition handle_upload_try :: "env \<Rightarrow> request \<Rightarrow> effect list \<times> string option" where
  "handle_upload_try env req =
     (let content_type = (case headers_get (headers req) ''content-type'' of
                            None \<Rightarrow> [] | Some v \<Rightarrow> v)
      in if \<not> startswith content_type ''multipart/form-data'' then
           ([send_json_response [(''error'', JStr ''Invalid content type'')] 400], None)
         else
           (case FieldStorage env req of
              Inl e \<Rightarrow> ([ParseBody], Some e)
            | Inr form \<Rightarrow>
                if \<not> form_contains form ''file'' then
                  ([ParseBody, send_json_response [(''error'', JStr ''No file uploaded'')] 400],
                   None)
                else
                  (case form_getitem form ''file'' of
                     Inl e \<Rightarrow> ([ParseBody], Some e)
                   | Inr (Items items) \<Rightarrow> ([ParseBody], Some list_has_no_filename)
                   | Inr (Item fileitem) \<Rightarrow>
                       if filename fileitem = None \<or> filename fileitem = Some [] then
                         ([ParseBody,
                           send_json_response [(''error'', JStr ''No file selected'')] 400],
                          None)
                       else
                         (case check_and_save env fileitem of
                            (es, r) \<Rightarrow> (ParseBody # es, r)))))"

text \<open>\<^verbatim>\<open>handle_upload\<close>: the \<^verbatim>\<open>try\<close> block and its \<^verbatim>\<open>except Exception\<close>
  handler, on a connection that stays open. The second component is the exception that
  leaves the method, if any; while every send and print succeeds there is none.\<close>

definition handle_upload :: "env \<Rightarrow> request \<Rightarrow> effect list \<times> string option" where
  "handle_upload env req =
     (case handle_upload_try env req of
        (es, None) \<Rightarrow> (es, None)
      | (es, Some e) \<Rightarrow>
          (es @ [Print (''Upload error: '' @ e),
                 send_json_response [(''error'', JStr (''Server error: '' @ e))] 500],
           None))"

definition do_POST :: "env \<Rightarrow> request \<Rightarrow> effect list \<times> string option" where
  "do_POST env req =
     (if path req = ''/upload'' then handle_upload env req
      else ([send_error 404 ''Endpoint not found''], None))"

subsection \<open>The server loop\<close>

text \<open>
  \<^verbatim>\<open>HTTPServer.serve_forever\<close> handles one request after the other; every request
  meets the outcomes of its own time. An exception that leaves a handler method is
  reported by the standard library's \<^verbatim>\<open>handle_error\<close> and the loop goes on.
\<close>

datatype http_method = GET | POST

definition handle_request :: "env \<Rightarrow> state \<Rightarrow> http_method \<Rightarrow> request \<Rightarrow> effect list \<times> string option" where
  "handle_request env s m req =
     (case m of GET \<Rightarrow> (do_GET env (files s) req, None) | POST \<Rightarrow> do_POST env req)"

fun serve :: "state \<Rightarrow> (env \<times> http_method \<times> request) list \<Rightarrow> state" where
  "serve s [] = s"
| "serve s ((env, m, req) # rest) = serve (run s (fst (handle_request env s m req))) rest"

subsection \<open>Startup: \<^verbatim>\<open>find_available_port\<close> and \<^verbatim>\<open>run_server\<close>\<close>

text \<open>
  \<^verbatim>\<open>bind port\<close> says whether binding a fresh socket to \<^verbatim>\<open>port\<close> succeeds; when it
  does not, \<^verbatim>\<open>bind\<close> raises OSError, which the loop catches. \<^verbatim>\<open>probe\<close> is the
  \<^verbatim>\<open>for\<close> loop over \<^verbatim>\<open>range(start_port, start_port + max_attempts)\<close>.
\<close>

fun probe :: "(int \<Rightarrow> bool) \<Rightarrow> int list \<Rightarrow> int option" where
  "probe bind [] = None"
| "probe bind (port # ports) = (if bind port then Some port else probe bind ports)"

definition find_available_port :: "(int \<Rightarrow> bool) \<Rightarrow> int \<Rightarrow> int \<Rightarrow> string + int" where
  "find_available_port bind start_port max_attempts =
     (case probe bind [start_port .. start_port + max_attempts - 1] of
        Some port \<Rightarrow> Inr port
      | None \<Rightarrow>
          Inl (''Could not find available port in range '' @ str_int start_port @ ''-'' @
               str_int (start_port + max_attempts)))"

text \<open>
  \<^verbatim>\<open>run_server\<close> up to the call of \<^verbatim>\<open>serve_forever\<close>: what it prints, and whether
  it serves on a port, exits with a status, or dies of an exception nothing catches (the
  call of \<^verbatim>\<open>find_available_port\<close> stands before the \<^verbatim>\<open>try\<close>). \<^verbatim>\<open>httpd port\<close> is
  the exception of \<^verbatim>\<open>HTTPServer(('', port), UploadHandler)\<close>, if any.
\<close>

datatype startup = Serving int | Exit int | Uncaught string

definition run_server :: "(int \<Rightarrow> bool) \<Rightarrow> (int \<Rightarrow> string option) \<Rightarrow> int option \<Rightarrow> string list \<times> startup" where
  "run_server bind httpd port =
     (case (case port of None \<Rightarrow> find_available_port bind 8080 100 | Some p \<Rightarrow> Inr p) of
        Inl e \<Rightarrow> ([], Uncaught e)
      | Inr p \<Rightarrow>
          (case httpd p of
             Some e \<Rightarrow> ([''Server error: '' @ e], Exit 1)
           | None \<Rightarrow>
               ([''MediaScreen upload server starting on port '' @ str_int p,
                 ''Access the upload interface at: http://localhost:'' @ str_int p,
                 ''Press Ctrl+C to stop the server''],
                Serving p)))"

subsection \<open>The upload handler on a connection that may break\<close>

text \<open>
  \<^verbatim>\<open>handle_upload\<close> above is the method while the connection to the client and the
  standard output stay open. In general \<^verbatim>\<open>self.wfile.write\<close> (inside
  \<^verbatim>\<open>send_json_response\<close>) and \<^verbatim>\<open>print\<close> may raise too, for example
  BrokenPipeError once the client has gone. \<^verbatim>\<open>send_fails r\<close> is the exception that sending
  the reply \<^verbatim>\<open>r\<close> raises, if any, and \<^verbatim>\<open>print_fails l\<close> the exception that printing
  the line \<^verbatim>\<open>l\<close> raises, if any. A reply or a line whose call raised is not counted as
  sent or printed.
\<close>

record transport =
  send_fails :: "reply \<Rightarrow> string option"
  print_fails :: "string \<Rightarrow> string option"

fun transport_fails :: "transport \<Rightarrow> effect \<Rightarrow> string option" where
  "transport_fails tr (Send r) = send_fails tr r"
| "transport_fails tr (Print l) = print_fails tr l"
| "transport_fails tr e = None"

text \<open>A sequence of statements runs until the first send or print that raises: what was
  done before it, and the exception, if any; the statements after it are not run.\<close>

fun until_failure :: "transport \<Rightarrow> effect list \<Rightarrow> effect list \<times> string option" where
  "until_failure tr [] = ([], None)"
| "until_failure tr (x # xs) =
     (case transport_fails tr x of
        Some e \<Rightarrow> ([], Some e)
      | None \<Rightarrow> (case until_failure tr xs of (ys, r) \<Rightarrow> (x # ys, r)))"

text \<open>The \<^verbatim>\<open>except Exception as e\<close> block of \<^verbatim>\<open>handle_upload\<close>: the log line, then
  the reply.\<close>

definition error_500 :: "string \<Rightarrow> effect list" where
  "error_500 e =
     [Print (''Upload error: '' @ e),
      send_json_response [(''error'', JStr (''Server error: '' @ e))] 500]"

text \<open>
  \<^verbatim>\<open>handle_upload\<close> with these failures. An exception raised inside the \<^verbatim>\<open>try\<close>
  block, by one of its calls or by one of its sends or prints, is caught and handed to the
  \<^verbatim>\<open>except\<close> block; an exception raised inside the \<^verbatim>\<open>except\<close> block is caught by
  nothing and leaves the method (the second component).
\<close>

definition handle_upload_io :: "transport \<Rightarrow> env \<Rightarrow> request \<Rightarrow> effect list \<times> string option" where
  "handle_upload_io tr env req =
     (case handle_upload_try env req of
        (es, r) \<Rightarrow>
          (case until_failure tr es of
             (es', Some e) \<Rightarrow>
               (case until_failure tr (error_500 e) of (hs, x) \<Rightarrow> (es' @ hs, x))
           | (es', None) \<Rightarrow>
               (case r of
                  None \<Rightarrow> (es', None)
                | Some e \<Rightarrow>
                    (case until_failure tr (error_500 e) of (hs, x) \<Rightarrow> (es' @ hs, x)))))"


subsection \<open>The media type of a Content-Type value, in the words of the specification\<close>

text \<open>
  The specification speaks of a Content-Type that "is multipart/form-data". A header value
  carries parameters after the type (\<^verbatim>\<open>multipart/form-data; boundary=...\<close>), so the words
  are read as: the media type of the value, that is the text before the first semicolon,
  without the blanks around it and in lower case, is \<^verbatim>\<open>multipart/form-data\<close>. The handler
  does not compute this; it tests a prefix of the value.
\<close>

definition is_blank :: "char \<Rightarrow> bool" where
  "is_blank c = (c = CHR '' '' \<or> c = CHR 0x09)"

definition spec_media_type :: "string \<Rightarrow> string" where
  "spec_media_type v =
     lower (rev (dropWhile is_blank (rev (dropWhile is_blank
       (takeWhile (\<lambda>c. c \<noteq> CHR '';'') v)))))"

subsection \<open>Example inputs\<close>

text \<open>
  A parser that finds one part named \<^verbatim>\<open>file\<close>, with the given filename and the
  request body as its payload, in a world where no call fails; an upload request with
  the given content type and body; a connection on which every send and print succeeds,
  and one on which every send raises.
\<close>

definition example_env :: "string \<Rightarrow> env" where
  "example_env fn =
     \<lparr>FieldStorage = (\<lambda>req. Inr [\<lparr>name = Some ''file'', filename = Some fn, fileobj = rfile req\<rparr>]),
      read_fails = None,
      open_fails = (\<lambda>p. None),
      write_fails = (\<lambda>p. None)\<rparr>"

definition example_request :: "string \<Rightarrow> string \<Rightarrow> request" where
  "example_request ct data =
     \<lparr>path = ''/upload'', headers = [(''Content-Type'', ct)], rfile = data\<rparr>"

definition empty_state :: state where
  "empty_state = \<lparr>files = Map.empty, sent = [], stdout = []\<rparr>"



section \<open>Properties\<close>

subsection \<open>Running effects\<close>

lemma run_Nil [simp]: "run s [] = s"
  by (simp add: run_def)

lemma run_Cons [simp]: "run s (e # es) = run (apply_effect s e) es"
  by (simp add: run_def)

lemma run_append: "run s (es @ es') = run (run s es) es'"
  by (simp add: run_def)

lemma files_untouched:
  "\<forall>e\<in>set es. \<not> touches p e \<Longrightarrow> files (run s es) p = files s p"
proof (induction es arbitrary: s)
  case Nil
  then show ?case by simp
next
  case (Cons e es)
  then have "files (run (apply_effect s e) es) p = files (apply_effect s e) p" by simp
  moreover from Cons.prems have "files (apply_effect s e) p = files s p"
    by (cases e) auto
  ultimately show ?case by simp
qed

lemma files_unchanged:
  assumes "\<forall>e\<in>set es. \<forall>p. \<not> touches p e"
  shows "files (run s es) = files s"
proof
  fix p
  from assms have "\<forall>e\<in>set es. \<not> touches p e" by blast
  then show "files (run s es) p = files s p" by (rule files_untouched)
qed

lemma form_contains_iff:
  "form_contains form key \<longleftrightarrow> filter (\<lambda>item. name item = Some key) form \<noteq> []"
  by (auto simp: form_contains_def list_ex_iff filter_empty_conv)

lemma form_getitem_Item:
  "form_getitem form key = Inr (Item fileitem) \<longleftrightarrow>
     filter (\<lambda>item. name item = Some key) form = [fileitem]"
  by (auto simp: form_getitem_def split: list.splits)

lemma getitem_contains:
  "form_getitem form key = Inr v \<Longrightarrow> form_contains form key"
  by (auto simp: form_contains_iff form_getitem_def split: list.splits)

lemma allowed_nonempty:
  "list_ex (endswith (lower fn)) allowed_extensions \<Longrightarrow> fn \<noteq> []"
  by (auto simp: allowed_extensions_def endswith_def lower_def)

lemma handle_upload_try_item:
  assumes "headers_get (headers req) ''content-type'' = Some ct"
    and "startswith ct ''multipart/form-data''"
    and "FieldStorage env req = Inr form"
    and "form_getitem form ''file'' = Inr (Item fileitem)"
    and "filename fileitem = Some fn" and "fn \<noteq> []"
  shows "handle_upload_try env req =
           (case check_and_save env fileitem of (es, r) \<Rightarrow> (ParseBody # es, r))"
  using assms getitem_contains[OF assms(4)]
  by (simp add: handle_upload_try_def)

lemma save_upload_ok:
  assumes "open_fails env ''watermark.png'' = None" "write_fails env ''watermark.png'' = None"
    and "open_fails env ''upload_complete.flag'' = None"
    and "write_fails env ''upload_complete.flag'' = None"
  shows "save_upload env file_data =
     ([OpenW ''watermark.png'', WriteF ''watermark.png'' file_data, CloseF ''watermark.png'',
       OpenW ''upload_complete.flag'', WriteF ''upload_complete.flag'' ''success'',
       CloseF ''upload_complete.flag'',
       send_json_response
         [(''status'', JStr ''success''),
          (''message'', JStr ''File uploaded successfully''),
          (''filename'', JStr ''watermark.png''),
          (''size'', JInt (int (length file_data)))] 200,
       Print (''Upload completed: '' @ str_int (int (length file_data)) @
              '' bytes saved as watermark.png'')],
      None)"
  using assms by (simp add: save_upload_def write_file_def)

lemma success_body:
  \<open>json_dumps
     [(''status'', JStr ''success''),
      (''message'', JStr ''File uploaded successfully''),
      (''filename'', JStr ''watermark.png''),
      (''size'', JInt n)] =
   ''{"status": "success", "message": "File uploaded successfully", "filename": "watermark.png", "size": '' @ str_int n @ ''}''\<close>
  by (simp add: json_dumps_def json_string_def json_escape_def)

subsection \<open>The replies with a fixed body\<close>

lemma error_reply:
  "send_json_response [(''error'', JStr msg)] code =
     Send (Response code
       [(''Content-type'', ''application/json''),
        (''Content-length'', str_int (int (length (json_dumps [(''error'', JStr msg)]))))]
       (json_dumps [(''error'', JStr msg)]))"
  by (simp add: send_json_response_def Let_def)

lemma invalid_content_type_body:
  \<open>json_dumps [(''error'', JStr ''Invalid content type'')] = ''{"error": "Invalid content type"}''\<close>
  by (simp add: json_dumps_def json_string_def json_escape_def)

lemma invalid_file_type_body:
  \<open>json_dumps [(''error'', JStr (''Invalid file type. Allowed: '' @ str_join '', '' allowed_extensions))] =
    ''{"error": "Invalid file type. Allowed: .png, .jpg, .jpeg, .gif, .bmp"}''\<close>
  by (simp add: json_dumps_def json_string_def json_escape_def allowed_extensions_def)

lemma too_large_body:
  \<open>json_dumps [(''error'', JStr ''File too large (max 10MB)'')] = ''{"error": "File too large (max 10MB)"}''\<close>
  by (simp add: json_dumps_def json_string_def json_escape_def)

lemma ready_body:
  \<open>json_dumps [(''status'', JStr ''ready'')] = ''{"status": "ready"}''\<close>
  by (simp add: json_dumps_def json_string_def json_escape_def)


lemma str_int_small:
  "str_int 19 = ''19''" "str_int 33 = ''33''" "str_int 38 = ''38''" "str_int 70 = ''70''"
  by (simp_all add: str_int_def str_nat.simps digit_def)

subsection \<open>The paths through the upload handler\<close>

lemma check_and_save_ok:
  assumes "filename fileitem = Some fn"
    and "list_ex (endswith (lower fn)) allowed_extensions"
    and "length (fileobj fileitem) \<le> 10485760"
    and "read_fails env = None"
  shows "check_and_save env fileitem =
           (case save_upload env (fileobj fileitem) of (es, r) \<Rightarrow> (ReadPayload # es, r))"
  using assms by (simp add: check_and_save_def)

lemma valid_upload_effects:
  assumes "headers_get (headers req) ''content-type'' = Some ct"
    and "startswith ct ''multipart/form-data''"
    and "FieldStorage env req = Inr form"
    and "form_getitem form ''file'' = Inr (Item fileitem)"
    and "filename fileitem = Some fn"
    and "list_ex (endswith (lower fn)) allowed_extensions"
    and "length (fileobj fileitem) \<le> 10485760"
    and "read_fails env = None"
    and "open_fails env ''watermark.png'' = None"
    and "write_fails env ''watermark.png'' = None"
    and "open_fails env ''upload_complete.flag'' = None"
    and "write_fails env ''upload_complete.flag'' = None"
  shows "handle_upload env req =
     ([ParseBody, ReadPayload,
       OpenW ''watermark.png'', WriteF ''watermark.png'' (fileobj fileitem),
       CloseF ''watermark.png'',
       OpenW ''upload_complete.flag'', WriteF ''upload_complete.flag'' ''success'',
       CloseF ''upload_complete.flag'',
       send_json_response
         [(''status'', JStr ''success''),
          (''message'', JStr ''File uploaded successfully''),
          (''filename'', JStr ''watermark.png''),
          (''size'', JInt (int (length (fileobj fileitem))))] 200,
       Print (''Upload completed: '' @ str_int (int (length (fileobj fileitem))) @
              '' bytes saved as watermark.png'')],
      None)"
proof -
  have ne: "fn \<noteq> []" using assms(6) by (rule allowed_nonempty)
  have tb: "handle_upload_try env req =
      (case check_and_save env fileitem of (es, r) \<Rightarrow> (ParseBody # es, r))"
    using assms(1-5) ne by (rule handle_upload_try_item)
  have cs: "check_and_save env fileitem =
      (case save_upload env (fileobj fileitem) of (es, r) \<Rightarrow> (ReadPayload # es, r))"
    using assms(5-8) by (rule check_and_save_ok)
  note sv = save_upload_ok[OF assms(9-12), of "fileobj fileitem"]
  show ?thesis
    by (simp add: handle_upload_def tb cs sv)
qed

lemma run_valid_upload:
  "files (run s
     [ParseBody, ReadPayload,
      OpenW ''watermark.png'', WriteF ''watermark.png'' data, CloseF ''watermark.png'',
      OpenW ''upload_complete.flag'', WriteF ''upload_complete.flag'' ''success'',
      CloseF ''upload_complete.flag'', send_json_response d code, Print line]) =
   (files s)(''watermark.png'' \<mapsto> data, ''upload_complete.flag'' \<mapsto> ''success'')"
  by (simp add: send_json_response_def Let_def)

subsection \<open>The example inputs\<close>

lemma example_headers:
  "headers_get (headers (example_request ct data)) ''content-type'' = Some ct"
  by (simp add: example_request_def lower_def lower_char_def char_of_def bit_0)

lemma example_path: "path (example_request ct data) = ''/upload''"
  by (simp add: example_request_def)

lemma example_multipart:
  "startswith ''multipart/form-data; boundary=x'' ''multipart/form-data''"
  by (simp add: startswith_def)

lemma example_allowed: "list_ex (endswith (lower ''Logo.PNG'')) allowed_extensions"
  by (simp add: allowed_extensions_def endswith_def lower_def lower_char_def char_of_def bit_0)

lemma example_not_allowed: "\<not> list_ex (endswith (lower ''notes.txt'')) allowed_extensions"
  by (simp add: allowed_extensions_def endswith_def lower_def lower_char_def char_of_def bit_0)

lemma example_parse:
  "FieldStorage (example_env fn) (example_request ct data) =
     Inr [\<lparr>name = Some ''file'', filename = Some fn, fileobj = data\<rparr>]"
  by (simp add: example_env_def example_request_def)

lemma example_getitem:
  "form_getitem [\<lparr>name = Some ''file'', filename = Some fn, fileobj = data\<rparr>] ''file'' =
     Inr (Item \<lparr>name = Some ''file'', filename = Some fn, fileobj = data\<rparr>)"
  by (simp add: form_getitem_def)

lemma example_no_fault:
  "read_fails (example_env fn) = None"
  "open_fails (example_env fn) p = None"
  "write_fails (example_env fn) p = None"
  by (simp_all add: example_env_def)

subsection \<open>Probing ports\<close>

lemma probe_upto:
  "probe bind [a..b] = Some p \<longleftrightarrow>
     a \<le> p \<and> p \<le> b \<and> bind p \<and> (\<forall>q. a \<le> q \<and> q < p \<longrightarrow> \<not> bind q)"
proof (induction a b rule: upto.induct)
  case (1 i j)
  show ?case
  proof (cases "i \<le> j")
    case False
    then show ?thesis by auto
  next
    case True
    then have u: "[i..j] = i # [i+1..j]" by (simp add: upto_rec1)
    show ?thesis
    proof (cases "bind i")
      case True
      with u \<open>i \<le> j\<close> show ?thesis by (auto simp: not_less)
    next
      case False
      have step: "\<And>q. i \<le> q \<Longrightarrow> bind q \<Longrightarrow> i + 1 \<le> q"
      proof -
        fix q assume "i \<le> q" "bind q"
        with False have "q \<noteq> i" by auto
        with \<open>i \<le> q\<close> show "i + 1 \<le> q" by arith
      qed
      have "probe bind [i..j] = probe bind [i+1..j]" using u False by simp
      also have "\<dots> = Some p \<longleftrightarrow>
          i + 1 \<le> p \<and> p \<le> j \<and> bind p \<and> (\<forall>q. i + 1 \<le> q \<and> q < p \<longrightarrow> \<not> bind q)"
        using 1 True by simp
      also have "\<dots> \<longleftrightarrow> i \<le> p \<and> p \<le> j \<and> bind p \<and> (\<forall>q. i \<le> q \<and> q < p \<longrightarrow> \<not> bind q)"
        using step by (auto intro: order_trans[of i "i+1"])
      finally show ?thesis .
    qed
  qed
qed

lemma probe_upto_None:
  "probe bind [a..b] = None \<longleftrightarrow> (\<forall>q. a \<le> q \<and> q \<le> b \<longrightarrow> \<not> bind q)"
proof (induction a b rule: upto.induct)
  case (1 i j)
  show ?case
  proof (cases "i \<le> j")
    case False
    then show ?thesis by auto
  next
    case True
    then have u: "[i..j] = i # [i+1..j]" by (simp add: upto_rec1)
    have split: "\<And>q. i \<le> q \<longleftrightarrow> q = i \<or> i + 1 \<le> q" by arith
    have "probe bind [i..j] = None \<longleftrightarrow> \<not> bind i \<and> probe bind [i+1..j] = None"
      using u by simp
    also have "\<dots> \<longleftrightarrow> \<not> bind i \<and> (\<forall>q. i + 1 \<le> q \<and> q \<le> j \<longrightarrow> \<not> bind q)"
      using 1 True by simp
    also have "\<dots> \<longleftrightarrow> (\<forall>q. i \<le> q \<and> q \<le> j \<longrightarrow> \<not> bind q)"
      using True by (auto simp: split)
    finally show ?thesis .
  qed
qed

lemma find_available_port_Inr:
  "find_available_port bind a m = Inr p \<longleftrightarrow>
     a \<le> p \<and> p \<le> a + m - 1 \<and> bind p \<and> (\<forall>q. a \<le> q \<and> q < p \<longrightarrow> \<not> bind q)"
proof -
  have "find_available_port bind a m = Inr p \<longleftrightarrow> probe bind [a .. a + m - 1] = Some p"
    by (simp add: find_available_port_def split: option.splits)
  then show ?thesis by (simp only: probe_upto)
qed

lemma find_available_port_Inl:
  "find_available_port bind a m = Inl e \<longleftrightarrow>
     (\<forall>q. a \<le> q \<and> q \<le> a + m - 1 \<longrightarrow> \<not> bind q) \<and>
     e = ''Could not find available port in range '' @ str_int a @ ''-'' @ str_int (a + m)"
proof -
  have "find_available_port bind a m = Inl e \<longleftrightarrow>
      probe bind [a .. a + m - 1] = None \<and>
      e = ''Could not find available port in range '' @ str_int a @ ''-'' @ str_int (a + m)"
    by (cases "probe bind [a .. a + m - 1]") (auto simp: find_available_port_def)
  then show ?thesis by (simp only: probe_upto_None)
qed

lemma range_message:
  "''Could not find available port in range '' @ str_int 8080 @ ''-'' @ str_int (8080 + 100) =
   ''Could not find available port in range 8080-8180''"
  by (simp add: str_int_def str_nat.simps digit_def)

subsection \<open>Replies and file effects of the upload handler\<close>

lemma status_of_json [simp]: "Send r = send_json_response d code \<Longrightarrow> status_of r = code"
  by (auto simp: send_json_response_def Let_def)

lemma touches_json [simp]: "\<not> touches p (send_json_response d code)"
  by (simp add: send_json_response_def Let_def)

lemma json_not_file [simp]:
  "send_json_response d code \<noteq> OpenW p"
  "send_json_response d code \<noteq> WriteF p bs"
  "send_json_response d code \<noteq> CloseF p"
  "send_json_response d code \<noteq> ParseBody"
  "send_json_response d code \<noteq> ReadPayload"
  "send_json_response d code \<noteq> Print l"
  by (simp_all add: send_json_response_def Let_def)

lemma write_file_sends: "write_file env p data = (ws, x) \<Longrightarrow> Send r \<notin> set ws"
  by (auto simp: write_file_def split: option.splits)

lemma save_upload_sends:
  "Send r \<in> set (fst (save_upload env data)) \<Longrightarrow> status_of r = 200"
  by (auto simp: save_upload_def split: prod.splits option.splits dest: write_file_sends)

lemma check_and_save_400:
  assumes "Send r \<in> set (fst (check_and_save env fileitem))" and "status_of r = 400"
  shows "(\<forall>e\<in>set (fst (check_and_save env fileitem)). \<forall>p. \<not> touches p e) \<and>
         snd (check_and_save env fileitem) = None \<and>
         (Send r = send_json_response
             [(''error'', JStr (''Invalid file type. Allowed: '' @
                  str_join '', '' allowed_extensions))] 400 \<or>
          Send r = send_json_response [(''error'', JStr ''File too large (max 10MB)'')] 400)"
proof (cases "list_ex (endswith (lower (the (filename fileitem)))) allowed_extensions")
  case False
  with assms show ?thesis by (simp add: check_and_save_def Let_def)
next
  case ext: True
  show ?thesis
  proof (cases "read_fails env")
    case (Some e)
    with ext assms show ?thesis by (simp add: check_and_save_def Let_def)
  next
    case None
    show ?thesis
    proof (cases "int (length (fileobj fileitem)) > 10 * 1024 * 1024")
      case True
      with ext None assms show ?thesis by (simp add: check_and_save_def Let_def)
    next
      case False
      with ext None have "fst (check_and_save env fileitem) =
          ReadPayload # fst (save_upload env (fileobj fileitem))"
        by (simp add: check_and_save_def Let_def split: prod.splits)
      with assms(1) have "Send r \<in> set (fst (save_upload env (fileobj fileitem)))" by simp
      then have "status_of r = 200" by (rule save_upload_sends)
      with assms(2) show ?thesis by simp
    qed
  qed
qed

lemma handle_upload_try_400:
  assumes "Send r \<in> set (fst (handle_upload_try env req))" and "status_of r = 400"
  shows "(\<forall>e\<in>set (fst (handle_upload_try env req)). \<forall>p. \<not> touches p e) \<and>
         snd (handle_upload_try env req) = None \<and>
         (\<exists>msg\<in>set [''Invalid content type'', ''No file uploaded'', ''No file selected'',
                     ''Invalid file type. Allowed: '' @ str_join '', '' allowed_extensions,
                     ''File too large (max 10MB)''].
            Send r = send_json_response [(''error'', JStr msg)] 400)"
proof -
  let ?ct = "case headers_get (headers req) ''content-type'' of None \<Rightarrow> [] | Some v \<Rightarrow> v"
  show ?thesis
  proof (cases "startswith ?ct ''multipart/form-data''")
    case False
    with assms show ?thesis by (simp add: handle_upload_try_def)
  next
    case ct: True
    show ?thesis
    proof (cases "FieldStorage env req")
      case (Inl e)
      with ct assms show ?thesis by (simp add: handle_upload_try_def)
    next
      case (Inr form)
      show ?thesis
      proof (cases "form_contains form ''file''")
        case False
        with ct Inr assms show ?thesis by (simp add: handle_upload_try_def)
      next
        case has: True
        show ?thesis
        proof (cases "form_getitem form ''file''")
          case (Inl e)
          with ct Inr has assms show ?thesis by (simp add: handle_upload_try_def)
        next
          case get: (Inr v)
          show ?thesis
          proof (cases v)
            case (Items items)
            with ct Inr has get assms show ?thesis by (simp add: handle_upload_try_def)
          next
            case (Item fileitem)
            show ?thesis
            proof (cases "filename fileitem = None \<or> filename fileitem = Some []")
              case True
              with ct Inr has get Item assms show ?thesis
                by (simp add: handle_upload_try_def)
            next
              case False
              with ct Inr has get Item
              have tb: "handle_upload_try env req =
                  (ParseBody # fst (check_and_save env fileitem), snd (check_and_save env fileitem))"
                by (auto simp: handle_upload_try_def split: prod.splits)
              with assms(1) have "Send r \<in> set (fst (check_and_save env fileitem))" by simp
              from check_and_save_400[OF this assms(2)] show ?thesis
                unfolding tb by auto
            qed
          qed
        qed
      qed
    qed
  qed
qed

lemma write_file_touches:
  "write_file env p data = (ws, x) \<Longrightarrow> e \<in> set ws \<Longrightarrow> touches q e \<Longrightarrow> q = p"
  by (auto simp: write_file_def split: option.splits)

lemma write_file_done:
  "write_file env p data = (ws, None) \<Longrightarrow> ws = [OpenW p, WriteF p data, CloseF p]"
  by (auto simp: write_file_def split: option.splits)

lemma save_upload_raised:
  "save_upload env data = (es, Some e) \<Longrightarrow> Send r \<notin> set es"
  by (auto simp: save_upload_def split: prod.splits option.splits dest: write_file_sends)

lemma check_and_save_raised:
  "check_and_save env fileitem = (es, Some e) \<Longrightarrow> Send r \<notin> set es"
  by (auto simp: check_and_save_def Let_def split: if_splits option.splits prod.splits
      dest: save_upload_raised)

lemma handle_upload_try_raised:
  "handle_upload_try env req = (es, Some e) \<Longrightarrow> Send r \<notin> set es"
  by (auto simp: handle_upload_try_def Let_def
      split: if_splits sum.splits lookup.splits prod.splits
      dest: check_and_save_raised)

lemma save_upload_flag:
  assumes "e \<in> set (fst (save_upload env data))" and "touches ''upload_complete.flag'' e"
  shows "\<exists>tail. fst (save_upload env data) =
            [OpenW ''watermark.png'', WriteF ''watermark.png'' data, CloseF ''watermark.png''] @ tail
          \<and> (\<forall>e'\<in>set tail. \<not> touches ''watermark.png'' e')"
proof (cases "write_file env ''watermark.png'' data")
  case (Pair ws x)
  show ?thesis
  proof (cases x)
    case (Some err)
    with Pair assms(1) have "e \<in> set ws" by (simp add: save_upload_def)
    from write_file_touches[OF Pair this assms(2)]
    have "''upload_complete.flag'' = ''watermark.png''" .
    then show ?thesis by simp
  next
    case None
    with Pair have ws: "ws = [OpenW ''watermark.png'', WriteF ''watermark.png'' data,
        CloseF ''watermark.png'']"
      by (simp add: write_file_done)
    obtain fl y where fl: "write_file env ''upload_complete.flag'' ''success'' = (fl, y)"
      by (cases "write_file env ''upload_complete.flag'' ''success''")
    have nofl: "\<forall>e'\<in>set fl. \<not> touches ''watermark.png'' e'"
      using write_file_touches[OF fl] by fastforce
    show ?thesis
    proof (cases y)
      case (Some err)
      with Pair None fl ws have "fst (save_upload env data) = ws @ fl"
        by (simp add: save_upload_def)
      with ws nofl show ?thesis by simp
    next
      case n: None
      with Pair None fl ws have "fst (save_upload env data) = ws @ (fl @
          [send_json_response
             [(''status'', JStr ''success''),
              (''message'', JStr ''File uploaded successfully''),
              (''filename'', JStr ''watermark.png''),
              (''size'', JInt (int (length data)))] 200,
           Print (''Upload completed: '' @ str_int (int (length data)) @
                   '' bytes saved as watermark.png'')])"
        by (simp add: save_upload_def)
      with ws nofl show ?thesis by simp
    qed
  qed
qed

lemma check_and_save_flag:
  assumes "e \<in> set (fst (check_and_save env fileitem))"
    and "touches ''upload_complete.flag'' e"
  shows "\<exists>tail. fst (check_and_save env fileitem) =
            [ReadPayload, OpenW ''watermark.png'', WriteF ''watermark.png'' (fileobj fileitem),
             CloseF ''watermark.png''] @ tail
          \<and> (\<forall>e'\<in>set tail. \<not> touches ''watermark.png'' e')"
proof (cases "fst (check_and_save env fileitem) =
    ReadPayload # fst (save_upload env (fileobj fileitem))")
  case True
  with assms have "e \<in> set (fst (save_upload env (fileobj fileitem)))" by auto
  from save_upload_flag[OF this assms(2)] True show ?thesis by auto
next
  case False
  then have "\<forall>e'\<in>set (fst (check_and_save env fileitem)). \<not> touches ''upload_complete.flag'' e'"
    by (auto simp: check_and_save_def Let_def split: if_splits option.splits prod.splits)
  with assms show ?thesis by blast
qed

lemma handle_upload_try_flag:
  assumes "e \<in> set (fst (handle_upload_try env req))"
    and "touches ''upload_complete.flag'' e"
  shows "\<exists>form fileitem tail.
            FieldStorage env req = Inr form \<and>
            form_getitem form ''file'' = Inr (Item fileitem) \<and>
            fst (handle_upload_try env req) =
              [ParseBody, ReadPayload, OpenW ''watermark.png'',
               WriteF ''watermark.png'' (fileobj fileitem), CloseF ''watermark.png''] @ tail \<and>
            (\<forall>e'\<in>set tail. \<not> touches ''watermark.png'' e')"
proof -
  let ?ct = "case headers_get (headers req) ''content-type'' of None \<Rightarrow> [] | Some v \<Rightarrow> v"
  show ?thesis
  proof (cases "startswith ?ct ''multipart/form-data''")
    case False
    with assms show ?thesis by (auto simp: handle_upload_try_def)
  next
    case ct: True
    show ?thesis
    proof (cases "FieldStorage env req")
      case (Inl err)
      with ct assms show ?thesis by (auto simp: handle_upload_try_def)
    next
      case (Inr form)
      show ?thesis
      proof (cases "form_contains form ''file''")
        case False
        with ct Inr assms show ?thesis by (auto simp: handle_upload_try_def)
      next
        case has: True
        show ?thesis
        proof (cases "form_getitem form ''file''")
          case (Inl err)
          with ct Inr has assms show ?thesis by (auto simp: handle_upload_try_def)
        next
          case get: (Inr v)
          show ?thesis
          proof (cases v)
            case (Items items)
            with ct Inr has get assms show ?thesis by (auto simp: handle_upload_try_def)
          next
            case (Item fileitem)
            show ?thesis
            proof (cases "filename fileitem = None \<or> filename fileitem = Some []")
              case True
              with ct Inr has get Item assms show ?thesis
                by (auto simp: handle_upload_try_def)
            next
              case False
              with ct Inr has get Item
              have tb: "fst (handle_upload_try env req) =
                  ParseBody # fst (check_and_save env fileitem)"
                by (auto simp: handle_upload_try_def split: prod.splits)
              with assms have "e \<in> set (fst (check_and_save env fileitem))" by auto
              from check_and_save_flag[OF this assms(2)] tb Inr get Item show ?thesis
                by auto
            qed
          qed
        qed
      qed
    qed
  qed
qed

lemma handle_upload_flag:
  assumes "e \<in> set (fst (handle_upload env req))"
    and "touches ''upload_complete.flag'' e"
  shows "\<exists>form fileitem tail.
            FieldStorage env req = Inr form \<and>
            form_getitem form ''file'' = Inr (Item fileitem) \<and>
            fst (handle_upload env req) =
              [ParseBody, ReadPayload, OpenW ''watermark.png'',
               WriteF ''watermark.png'' (fileobj fileitem), CloseF ''watermark.png''] @ tail \<and>
            (\<forall>e'\<in>set tail. \<not> touches ''watermark.png'' e')"
proof -
  obtain es x where t: "handle_upload_try env req = (es, x)"
    by (cases "handle_upload_try env req")
  have sub: "\<exists>extra. fst (handle_upload env req) = es @ extra \<and>
      (\<forall>e'\<in>set extra. \<forall>p. \<not> touches p e')"
    using t by (cases x) (auto simp: handle_upload_def)
  then obtain extra where x: "fst (handle_upload env req) = es @ extra"
    "\<forall>e'\<in>set extra. \<forall>p. \<not> touches p e'" by blast
  with assms have "e \<in> set es" by auto
  with t have "e \<in> set (fst (handle_upload_try env req))" by simp
  from handle_upload_try_flag[OF this assms(2)] t x show ?thesis by auto
qed

lemma handle_upload_returns: "snd (handle_upload env req) = None"
  by (simp add: handle_upload_def split: prod.splits option.splits)

lemma handle_upload_400:
  assumes "Send r \<in> set (fst (handle_upload env req))" and "status_of r = 400"
  shows "fst (handle_upload env req) = fst (handle_upload_try env req) \<and>
         Send r \<in> set (fst (handle_upload_try env req))"
proof -
  obtain es x where t: "handle_upload_try env req = (es, x)"
    by (cases "handle_upload_try env req")
  show ?thesis
  proof (cases x)
    case None
    with t assms show ?thesis by (simp add: handle_upload_def)
  next
    case (Some err)
    with t have "Send r \<notin> set es" by (simp add: handle_upload_try_raised)
    with t Some assms show ?thesis
      by (auto simp: handle_upload_def dest: status_of_json[OF sym])
  qed
qed

subsection \<open>Failures of the connection\<close>

lemma until_failure_none:
  "\<forall>x\<in>set es. transport_fails tr x = None \<Longrightarrow> until_failure tr es = (es, None)"
  by (induction es) auto








lemma handle_upload_io_open:
  assumes "\<And>r. send_fails tr r = None" and "\<And>l. print_fails tr l = None"
  shows "handle_upload_io tr env req = handle_upload env req"
proof -
  have nf: "transport_fails tr x = None" for x
    using assms by (cases x) simp_all
  then have u: "until_failure tr es = (es, None)" for es
    by (simp add: until_failure_none)
  have "handle_upload_io tr env req =
      (case handle_upload_try env req of
         (es, None) \<Rightarrow> (es, None)
       | (es, Some e) \<Rightarrow> (es @ error_500 e, None))"
    by (simp add: handle_upload_io_def u split: prod.splits option.splits)
  then show ?thesis
    by (simp add: handle_upload_def error_500_def split: prod.splits option.splits)
qed

subsection \<open>The calls of the \<^verbatim>\<open>try\<close> block that raise\<close>







section \<open>The claims of the specification\<close>

text \<open>
  C1. In every state that the upload handler passes through, for every request and
  whatever fails: once the handler has opened, written or closed
  \<^verbatim>\<open>upload_complete.flag\<close>, it has before that read the payload of the request's
  \<^verbatim>\<open>file\<close> part, written all of it to \<^verbatim>\<open>watermark.png\<close> and closed that file, and
  \<^verbatim>\<open>watermark.png\<close> holds exactly that payload. Here \<open>pre\<close> is what the handler has
  done so far and \<open>post\<close> what it has yet to do. And when the handler reaches the write
  of the watermark and no open or write fails, it writes both files, the watermark first
  and the flag after it.
\<close>

theorem flag_written_after_watermark:
  "(fst (handle_upload env req) = pre @ post \<and> e \<in> set pre \<and>
      touches ''upload_complete.flag'' e \<longrightarrow>
      (\<exists>form fileitem rest.
          FieldStorage env req = Inr form \<and>
          form_getitem form ''file'' = Inr (Item fileitem) \<and>
          pre = [ParseBody, ReadPayload, OpenW ''watermark.png'',
                 WriteF ''watermark.png'' (fileobj fileitem), CloseF ''watermark.png''] @ rest \<and>
          files (run s pre) ''watermark.png'' = Some (fileobj fileitem)))
   \<and> (open_fails env ''watermark.png'' = None \<and> write_fails env ''watermark.png'' = None \<and>
      open_fails env ''upload_complete.flag'' = None \<and>
      write_fails env ''upload_complete.flag'' = None \<longrightarrow>
      fst (save_upload env data) =
        [OpenW ''watermark.png'', WriteF ''watermark.png'' data, CloseF ''watermark.png'',
         OpenW ''upload_complete.flag'', WriteF ''upload_complete.flag'' ''success'',
         CloseF ''upload_complete.flag'',
         send_json_response
           [(''status'', JStr ''success''),
            (''message'', JStr ''File uploaded successfully''),
            (''filename'', JStr ''watermark.png''),
            (''size'', JInt (int (length data)))] 200,
         Print (''Upload completed: '' @ str_int (int (length data)) @
                '' bytes saved as watermark.png'')])"
proof (intro conjI impI)
  assume h: "fst (handle_upload env req) = pre @ post \<and> e \<in> set pre \<and>
      touches ''upload_complete.flag'' e"
  then have "e \<in> set (fst (handle_upload env req))" by simp
  from handle_upload_flag[OF this] h
  obtain form fileitem tail where f: "FieldStorage env req = Inr form"
    "form_getitem form ''file'' = Inr (Item fileitem)"
    and es: "fst (handle_upload env req) =
       [ParseBody, ReadPayload, OpenW ''watermark.png'',
        WriteF ''watermark.png'' (fileobj fileitem), CloseF ''watermark.png''] @ tail"
    and tail: "\<forall>e'\<in>set tail. \<not> touches ''watermark.png'' e'"
    by blast
  let ?h = "[ParseBody, ReadPayload, OpenW ''watermark.png'',
        WriteF ''watermark.png'' (fileobj fileitem), CloseF ''watermark.png'']"
  from h es have "pre @ post = ?h @ tail" by simp
  then obtain us where "(pre = ?h @ us \<and> us @ post = tail) \<or> (pre @ us = ?h \<and> post = us @ tail)"
    unfolding append_eq_append_conv2 by blast
  then show "\<exists>form fileitem rest.
          FieldStorage env req = Inr form \<and>
          form_getitem form ''file'' = Inr (Item fileitem) \<and>
          pre = [ParseBody, ReadPayload, OpenW ''watermark.png'',
                 WriteF ''watermark.png'' (fileobj fileitem), CloseF ''watermark.png''] @ rest \<and>
          files (run s pre) ''watermark.png'' = Some (fileobj fileitem)"
  proof
    assume a: "pre = ?h @ us \<and> us @ post = tail"
    with tail have "\<forall>e'\<in>set us. \<not> touches ''watermark.png'' e'" by auto
    then have "files (run (run s ?h) us) ''watermark.png'' = files (run s ?h) ''watermark.png''"
      by (rule files_untouched)
    moreover have "files (run s ?h) ''watermark.png'' = Some (fileobj fileitem)" by simp
    ultimately have "files (run s pre) ''watermark.png'' = Some (fileobj fileitem)"
      using a by (simp only: run_append)
    with a f show ?thesis by blast
  next
    assume b: "pre @ us = ?h \<and> post = us @ tail"
    then have "set pre \<subseteq> set ?h" by (metis set_append Un_upper1)
    with h have "e \<in> set ?h" by blast
    with h show ?thesis by auto
  qed
next
  assume "open_fails env ''watermark.png'' = None \<and> write_fails env ''watermark.png'' = None \<and>
      open_fails env ''upload_complete.flag'' = None \<and>
      write_fails env ''upload_complete.flag'' = None"
  then show "fst (save_upload env data) =
        [OpenW ''watermark.png'', WriteF ''watermark.png'' data, CloseF ''watermark.png'',
         OpenW ''upload_complete.flag'', WriteF ''upload_complete.flag'' ''success'',
         CloseF ''upload_complete.flag'',
         send_json_response
           [(''status'', JStr ''success''),
            (''message'', JStr ''File uploaded successfully''),
            (''filename'', JStr ''watermark.png''),
            (''size'', JInt (int (length data)))] 200,
         Print (''Upload completed: '' @ str_int (int (length data)) @
                '' bytes saved as watermark.png'')]"
    by (simp add: save_upload_ok)
qed

theorem flag_written_after_watermark_witness:
  "fst (handle_upload (example_env ''Logo.PNG'')
          (example_request ''multipart/form-data; boundary=x'' ''abc'')) =
     [ParseBody, ReadPayload, OpenW ''watermark.png'', WriteF ''watermark.png'' ''abc'',
      CloseF ''watermark.png'', OpenW ''upload_complete.flag''] @
     [WriteF ''upload_complete.flag'' ''success'', CloseF ''upload_complete.flag'',
      send_json_response
        [(''status'', JStr ''success''),
         (''message'', JStr ''File uploaded successfully''),
         (''filename'', JStr ''watermark.png''),
         (''size'', JInt 3)] 200,
      Print ''Upload completed: 3 bytes saved as watermark.png'']
   \<and> files (run empty_state
        [ParseBody, ReadPayload, OpenW ''watermark.png'', WriteF ''watermark.png'' ''abc'',
         CloseF ''watermark.png'', OpenW ''upload_complete.flag'']) ''watermark.png'' = Some ''abc''"
proof -
  let ?env = "example_env ''Logo.PNG''"
  let ?req = "example_request ''multipart/form-data; boundary=x'' ''abc''"
  let ?pre = "[ParseBody, ReadPayload, OpenW ''watermark.png'', WriteF ''watermark.png'' ''abc'',
      CloseF ''watermark.png'', OpenW ''upload_complete.flag'']"
  let ?post = "[WriteF ''upload_complete.flag'' ''success'', CloseF ''upload_complete.flag'',
      send_json_response
        [(''status'', JStr ''success''),
         (''message'', JStr ''File uploaded successfully''),
         (''filename'', JStr ''watermark.png''),
         (''size'', JInt 3)] 200,
      Print ''Upload completed: 3 bytes saved as watermark.png'']"
  have 5: "filename \<lparr>name = Some ''file'', filename = Some ''Logo.PNG'', fileobj = ''abc''\<rparr> = Some ''Logo.PNG''"
    by simp
  have 7: "length (fileobj \<lparr>name = Some ''file'', filename = Some ''Logo.PNG'', fileobj = ''abc''\<rparr>) \<le> 10485760"
    by simp
  have es: "fst (handle_upload ?env ?req) = ?pre @ ?post"
    using valid_upload_effects[OF example_headers example_multipart example_parse
        example_getitem 5 example_allowed 7 example_no_fault example_no_fault(2,3)]
    by (simp add: str_int_def str_nat.simps digit_def)
  have m: "OpenW ''upload_complete.flag'' \<in> set ?pre" by simp
  have t: "touches ''upload_complete.flag'' (OpenW ''upload_complete.flag'')" by simp
  from flag_written_after_watermark[of ?env ?req ?pre ?post "OpenW ''upload_complete.flag''" empty_state]
    es m t
  have "\<exists>form fileitem rest.
          FieldStorage ?env ?req = Inr form \<and>
          form_getitem form ''file'' = Inr (Item fileitem) \<and>
          ?pre = [ParseBody, ReadPayload, OpenW ''watermark.png'',
                 WriteF ''watermark.png'' (fileobj fileitem), CloseF ''watermark.png''] @ rest \<and>
          files (run empty_state ?pre) ''watermark.png'' = Some (fileobj fileitem)"
    by blast
  then have "files (run empty_state ?pre) ''watermark.png'' = Some ''abc''"
    by (auto simp: example_parse example_getitem)
  with es show ?thesis by blast
qed

text \<open>
  C2. A valid upload: the request is a POST to \<^verbatim>\<open>/upload\<close> whose Content-Type starts
  with \<^verbatim>\<open>multipart/form-data\<close>, the parser returns a form with exactly one part named
  \<^verbatim>\<open>file\<close>, its filename ends, in lower case, with an allowed extension, and its
  payload has \<open>N \<le> 10485760\<close> bytes; no call fails while it is handled. Then the
  handler reads the payload, writes it to \<^verbatim>\<open>watermark.png\<close>, writes the flag, and
  answers 200 with the JSON object of status \<^verbatim>\<open>success\<close>, the message, the filename
  \<^verbatim>\<open>watermark.png\<close> and size \<open>N\<close>; afterwards \<^verbatim>\<open>watermark.png\<close> holds exactly the
  payload, whatever the files held before.
\<close>

theorem valid_upload_succeeds:
  assumes "path req = ''/upload''"
    and "headers_get (headers req) ''content-type'' = Some ct"
    and "startswith ct ''multipart/form-data''"
    and "FieldStorage env req = Inr form"
    and "form_getitem form ''file'' = Inr (Item fileitem)"
    and "filename fileitem = Some fn"
    and "list_ex (endswith (lower fn)) allowed_extensions"
    and "length (fileobj fileitem) \<le> 10485760"
    and "read_fails env = None"
    and "open_fails env ''watermark.png'' = None"
    and "write_fails env ''watermark.png'' = None"
    and "open_fails env ''upload_complete.flag'' = None"
    and "write_fails env ''upload_complete.flag'' = None"
  shows \<open>do_POST env req =
     ([ParseBody, ReadPayload,
       OpenW ''watermark.png'', WriteF ''watermark.png'' (fileobj fileitem),
       CloseF ''watermark.png'',
       OpenW ''upload_complete.flag'', WriteF ''upload_complete.flag'' ''success'',
       CloseF ''upload_complete.flag'',
       Send (Response 200
         [(''Content-type'', ''application/json''),
          (''Content-length'', str_int (int (length
             (''{"status": "success", "message": "File uploaded successfully", "filename": "watermark.png", "size": ''
              @ str_int (int (length (fileobj fileitem))) @ ''}''))))]
         (''{"status": "success", "message": "File uploaded successfully", "filename": "watermark.png", "size": ''
          @ str_int (int (length (fileobj fileitem))) @ ''}'')),
       Print (''Upload completed: '' @ str_int (int (length (fileobj fileitem))) @
              '' bytes saved as watermark.png'')],
      None)
    \<and> files (run s (fst (do_POST env req))) ''watermark.png'' = Some (fileobj fileitem)
    \<and> files (run s (fst (do_POST env req))) ''upload_complete.flag'' = Some ''success''\<close>
proof -
  have eq: "do_POST env req =
     ([ParseBody, ReadPayload,
       OpenW ''watermark.png'', WriteF ''watermark.png'' (fileobj fileitem),
       CloseF ''watermark.png'',
       OpenW ''upload_complete.flag'', WriteF ''upload_complete.flag'' ''success'',
       CloseF ''upload_complete.flag'',
       send_json_response
         [(''status'', JStr ''success''),
          (''message'', JStr ''File uploaded successfully''),
          (''filename'', JStr ''watermark.png''),
          (''size'', JInt (int (length (fileobj fileitem))))] 200,
       Print (''Upload completed: '' @ str_int (int (length (fileobj fileitem))) @
              '' bytes saved as watermark.png'')],
      None)"
    using assms(1) valid_upload_effects[OF assms(2-13)] by (simp add: do_POST_def)
  have fs: "files (run s (fst (do_POST env req))) =
      (files s)(''watermark.png'' \<mapsto> fileobj fileitem, ''upload_complete.flag'' \<mapsto> ''success'')"
    unfolding eq fst_conv by (rule run_valid_upload)
  show ?thesis
    unfolding fs unfolding eq
    by (simp add: send_json_response_def Let_def success_body del: append.simps)
qed

theorem valid_upload_succeeds_witness:
  \<open>do_POST (example_env ''Logo.PNG'') (example_request ''multipart/form-data; boundary=x'' ''abc'') =
     ([ParseBody, ReadPayload,
       OpenW ''watermark.png'', WriteF ''watermark.png'' ''abc'', CloseF ''watermark.png'',
       OpenW ''upload_complete.flag'', WriteF ''upload_complete.flag'' ''success'',
       CloseF ''upload_complete.flag'',
       Send (Response 200
         [(''Content-type'', ''application/json''), (''Content-length'', ''102'')]
         ''{"status": "success", "message": "File uploaded successfully", "filename": "watermark.png", "size": 3}''),
       Print ''Upload completed: 3 bytes saved as watermark.png''],
      None)
    \<and> files (run empty_state (fst (do_POST (example_env ''Logo.PNG'')
           (example_request ''multipart/form-data; boundary=x'' ''abc''))))
         ''watermark.png'' = Some ''abc''\<close>
proof -
  have 6: "filename \<lparr>name = Some ''file'', filename = Some ''Logo.PNG'', fileobj = ''abc''\<rparr> = Some ''Logo.PNG''"
    by simp
  have 8: "length (fileobj \<lparr>name = Some ''file'', filename = Some ''Logo.PNG'', fileobj = ''abc''\<rparr>) \<le> 10485760"
    by simp
  show ?thesis
    using valid_upload_succeeds[OF example_path example_headers example_multipart example_parse
        example_getitem 6 example_allowed 8 example_no_fault example_no_fault(2,3), of empty_state]
    by (simp add: str_int_def str_nat.simps digit_def)
qed

text \<open>
  C3. An upload that passes the checks of content type, field, filename and extension,
  and whose payload, once read, has more than 10485760 bytes: the handler answers 400
  with the body \<^verbatim>\<open>{"error": "File too large (max 10MB)"}\<close>. The payload is read in full
  before its size is looked at, no file is opened or written, and every file is as it was.
\<close>

theorem oversized_upload_rejected:
  assumes "path req = ''/upload''"
    and "headers_get (headers req) ''content-type'' = Some ct"
    and "startswith ct ''multipart/form-data''"
    and "FieldStorage env req = Inr form"
    and "form_getitem form ''file'' = Inr (Item fileitem)"
    and "filename fileitem = Some fn"
    and "list_ex (endswith (lower fn)) allowed_extensions"
    and "read_fails env = None"
    and "length (fileobj fileitem) > 10485760"
  shows \<open>do_POST env req =
     ([ParseBody, ReadPayload,
       Send (Response 400
         [(''Content-type'', ''application/json''), (''Content-length'', ''38'')]
         ''{"error": "File too large (max 10MB)"}'')],
      None)
    \<and> files (run s (fst (do_POST env req))) = files s\<close>
proof -
  have ne: "fn \<noteq> []" using assms(7) by (rule allowed_nonempty)
  have tb: "handle_upload_try env req =
      (case check_and_save env fileitem of (es, r) \<Rightarrow> (ParseBody # es, r))"
    using assms(2-6) ne by (rule handle_upload_try_item)
  have cs: "check_and_save env fileitem =
      ([ReadPayload, send_json_response [(''error'', JStr ''File too large (max 10MB)'')] 400], None)"
    using assms(6-9) by (simp add: check_and_save_def)
  have eq: "do_POST env req =
     ([ParseBody, ReadPayload,
       Send (Response 400
         [(''Content-type'', ''application/json''), (''Content-length'', ''38'')]
         (json_dumps [(''error'', JStr ''File too large (max 10MB)'')]))],
      None)"
    using assms(1)
    by (simp add: do_POST_def handle_upload_def tb cs error_reply too_large_body str_int_small)
  show ?thesis
    unfolding eq by (simp add: too_large_body)
qed

theorem oversized_upload_rejected_witness:
  \<open>do_POST (example_env ''Logo.PNG'')
      (example_request ''multipart/form-data; boundary=x'' (replicate 10485761 (CHR ''a''))) =
     ([ParseBody, ReadPayload,
       Send (Response 400
         [(''Content-type'', ''application/json''), (''Content-length'', ''38'')]
         ''{"error": "File too large (max 10MB)"}'')],
      None)
    \<and> files (run empty_state (fst (do_POST (example_env ''Logo.PNG'')
         (example_request ''multipart/form-data; boundary=x'' (replicate 10485761 (CHR ''a'')))))) =
       Map.empty\<close>
proof -
  have 6: "filename \<lparr>name = Some ''file'', filename = Some ''Logo.PNG'',
      fileobj = replicate 10485761 (CHR ''a'')\<rparr> = Some ''Logo.PNG''"
    by simp
  have 9: "length (fileobj \<lparr>name = Some ''file'', filename = Some ''Logo.PNG'',
      fileobj = replicate 10485761 (CHR ''a'')\<rparr>) > 10485760"
    by simp
  have e: "files empty_state = Map.empty" by (simp add: empty_state_def)
  show ?thesis
    using oversized_upload_rejected[OF example_path example_headers example_multipart example_parse
        example_getitem 6 example_allowed example_no_fault(1) 9, of empty_state]
    unfolding e .
qed

text \<open>
  C4, as amended. A POST to \<^verbatim>\<open>/upload\<close> with no Content-Type header, or with one
  whose value does not start with the text \<^verbatim>\<open>multipart/form-data\<close> (the handler's
  test: a prefix of the value, compared as written, capitals included), is answered 400
  with the body \<^verbatim>\<open>{"error": "Invalid content type"}\<close>. That reply is all the handler
  does: the body is not parsed, no file is touched and every file is as it was.
\<close>

theorem invalid_content_type_rejected:
  assumes "path req = ''/upload''"
    and "headers_get (headers req) ''content-type'' = None \<or>
         (\<exists>v. headers_get (headers req) ''content-type'' = Some v \<and>
              \<not> startswith v ''multipart/form-data'')"
  shows \<open>do_POST env req =
     ([Send (Response 400
         [(''Content-type'', ''application/json''), (''Content-length'', ''33'')]
         ''{"error": "Invalid content type"}'')],
      None)
    \<and> ParseBody \<notin> set (fst (do_POST env req))
    \<and> files (run s (fst (do_POST env req))) = files s\<close>
proof -
  have nomp: "\<not> startswith [] ''multipart/form-data''" by (simp add: startswith_def)
  have tb: "handle_upload_try env req =
      ([send_json_response [(''error'', JStr ''Invalid content type'')] 400], None)"
    using assms(2) nomp by (auto simp: handle_upload_try_def)
  have eq: "do_POST env req =
     ([Send (Response 400
         [(''Content-type'', ''application/json''), (''Content-length'', ''33'')]
         (json_dumps [(''error'', JStr ''Invalid content type'')]))],
      None)"
    using assms(1)
    by (simp add: do_POST_def handle_upload_def tb error_reply invalid_content_type_body
        str_int_small)
  show ?thesis
    unfolding eq by (simp add: invalid_content_type_body)
qed

theorem invalid_content_type_rejected_witness:
  \<open>do_POST (example_env ''Logo.PNG'') (example_request ''application/json'' ''abc'') =
     ([Send (Response 400
         [(''Content-type'', ''application/json''), (''Content-length'', ''33'')]
         ''{"error": "Invalid content type"}'')],
      None)
    \<and> do_POST (example_env ''Logo.PNG'') \<lparr>path = ''/upload'', headers = [], rfile = ''abc''\<rparr> =
     ([Send (Response 400
         [(''Content-type'', ''application/json''), (''Content-length'', ''33'')]
         ''{"error": "Invalid content type"}'')],
      None)\<close>
proof -
  have 1: "headers_get (headers (example_request ''application/json'' ''abc'')) ''content-type'' = None \<or>
         (\<exists>v. headers_get (headers (example_request ''application/json'' ''abc'')) ''content-type'' = Some v \<and>
              \<not> startswith v ''multipart/form-data'')"
    by (simp add: example_headers startswith_def)
  have 2: "path \<lparr>path = ''/upload'', headers = [], rfile = ''abc''\<rparr> = ''/upload''" by simp
  have 3: "headers_get (headers \<lparr>path = ''/upload'', headers = [], rfile = ''abc''\<rparr>) ''content-type'' = None \<or>
         (\<exists>v. headers_get (headers \<lparr>path = ''/upload'', headers = [], rfile = ''abc''\<rparr>) ''content-type'' = Some v \<and>
              \<not> startswith v ''multipart/form-data'')"
    by simp
  show ?thesis
    using invalid_content_type_rejected[OF example_path 1, of "example_env ''Logo.PNG''" empty_state]
      invalid_content_type_rejected[OF 2 3, of "example_env ''Logo.PNG''" empty_state]
    by simp
qed

text \<open>
  C4 as it was worded, for every Content-Type that is not multipart/form-data, does not
  hold: the value \<^verbatim>\<open>multipart/form-dataX; boundary=x\<close> has the media type
  \<^verbatim>\<open>multipart/form-datax\<close>, which is not \<^verbatim>\<open>multipart/form-data\<close>, yet it passes the
  handler's prefix test; the body is parsed, both files are written and the answer is 200.
\<close>

theorem other_media_type_accepted:
  \<open>spec_media_type ''multipart/form-dataX; boundary=x'' \<noteq> ''multipart/form-data''
   \<and> do_POST (example_env ''Logo.PNG'')
        (example_request ''multipart/form-dataX; boundary=x'' ''abc'') =
     ([ParseBody, ReadPayload,
       OpenW ''watermark.png'', WriteF ''watermark.png'' ''abc'', CloseF ''watermark.png'',
       OpenW ''upload_complete.flag'', WriteF ''upload_complete.flag'' ''success'',
       CloseF ''upload_complete.flag'',
       Send (Response 200
         [(''Content-type'', ''application/json''), (''Content-length'', ''102'')]
         ''{"status": "success", "message": "File uploaded successfully", "filename": "watermark.png", "size": 3}''),
       Print ''Upload completed: 3 bytes saved as watermark.png''],
      None)\<close>
proof -
  have m: "spec_media_type ''multipart/form-dataX; boundary=x'' = ''multipart/form-datax''"
    by (simp add: spec_media_type_def is_blank_def lower_def lower_char_def char_of_def bit_0)
  have st: "startswith ''multipart/form-dataX; boundary=x'' ''multipart/form-data''"
    by (simp add: startswith_def)
  have 5: "filename \<lparr>name = Some ''file'', filename = Some ''Logo.PNG'', fileobj = ''abc''\<rparr> =
      Some ''Logo.PNG''"
    by simp
  have 7: "length (fileobj \<lparr>name = Some ''file'', filename = Some ''Logo.PNG'',
      fileobj = ''abc''\<rparr>) \<le> 10485760"
    by simp
  have "do_POST (example_env ''Logo.PNG'')
        (example_request ''multipart/form-dataX; boundary=x'' ''abc'') =
     ([ParseBody, ReadPayload,
       OpenW ''watermark.png'', WriteF ''watermark.png'' ''abc'', CloseF ''watermark.png'',
       OpenW ''upload_complete.flag'', WriteF ''upload_complete.flag'' ''success'',
       CloseF ''upload_complete.flag'',
       send_json_response
         [(''status'', JStr ''success''),
          (''message'', JStr ''File uploaded successfully''),
          (''filename'', JStr ''watermark.png''),
          (''size'', JInt 3)] 200,
       Print ''Upload completed: 3 bytes saved as watermark.png''],
      None)"
    using valid_upload_effects[OF example_headers st example_parse example_getitem 5
        example_allowed 7 example_no_fault example_no_fault(2,3)]
    by (simp add: do_POST_def example_path str_int_def str_nat.simps digit_def)
  then show ?thesis
    unfolding m
    by (simp add: send_json_response_def Let_def success_body str_int_def str_nat.simps digit_def)
qed

text \<open>
  C5. An upload that passes the checks of content type and field and has a filename
  that, in lower case, ends with none of \<^verbatim>\<open>.png .jpg .jpeg .gif .bmp\<close>: the handler
  answers 400 with an error message that lists the allowed extensions. The payload is not
  read, no file is touched, and every file (so \<^verbatim>\<open>watermark.png\<close> and
  \<^verbatim>\<open>upload_complete.flag\<close>) is as it was.
\<close>

theorem disallowed_extension_rejected:
  assumes "path req = ''/upload''"
    and "headers_get (headers req) ''content-type'' = Some ct"
    and "startswith ct ''multipart/form-data''"
    and "FieldStorage env req = Inr form"
    and "form_getitem form ''file'' = Inr (Item fileitem)"
    and "filename fileitem = Some fn" and "fn \<noteq> []"
    and "\<not> list_ex (endswith (lower fn)) allowed_extensions"
  shows \<open>do_POST env req =
     ([ParseBody,
       Send (Response 400
         [(''Content-type'', ''application/json''), (''Content-length'', ''70'')]
         ''{"error": "Invalid file type. Allowed: .png, .jpg, .jpeg, .gif, .bmp"}'')],
      None)
    \<and> files (run s (fst (do_POST env req))) = files s\<close>
proof -
  have tb: "handle_upload_try env req =
      (case check_and_save env fileitem of (es, r) \<Rightarrow> (ParseBody # es, r))"
    using assms(2-7) by (rule handle_upload_try_item)
  have cs: "check_and_save env fileitem =
      ([send_json_response
          [(''error'', JStr (''Invalid file type. Allowed: '' @
               str_join '', '' allowed_extensions))] 400], None)"
    using assms(6,8) by (simp add: check_and_save_def)
  have rep: \<open>send_json_response
          [(''error'', JStr (''Invalid file type. Allowed: '' @
               str_join '', '' allowed_extensions))] 400 =
       Send (Response 400
         [(''Content-type'', ''application/json''), (''Content-length'', ''70'')]
         ''{"error": "Invalid file type. Allowed: .png, .jpg, .jpeg, .gif, .bmp"}'')\<close>
    unfolding error_reply invalid_file_type_body by (simp add: str_int_small)
  have eq: "do_POST env req =
     ([ParseBody,
       send_json_response
          [(''error'', JStr (''Invalid file type. Allowed: '' @
               str_join '', '' allowed_extensions))] 400],
      None)"
    using assms(1) by (simp add: do_POST_def handle_upload_def tb cs)
  show ?thesis
    unfolding eq rep by simp
qed

theorem disallowed_extension_rejected_witness:
  \<open>do_POST (example_env ''notes.txt'') (example_request ''multipart/form-data; boundary=x'' ''abc'') =
     ([ParseBody,
       Send (Response 400
         [(''Content-type'', ''application/json''), (''Content-length'', ''70'')]
         ''{"error": "Invalid file type. Allowed: .png, .jpg, .jpeg, .gif, .bmp"}'')],
      None)
    \<and> files (run empty_state (fst (do_POST (example_env ''notes.txt'')
         (example_request ''multipart/form-data; boundary=x'' ''abc'')))) = Map.empty\<close>
proof -
  have 6: "filename \<lparr>name = Some ''file'', filename = Some ''notes.txt'', fileobj = ''abc''\<rparr> =
      Some ''notes.txt''"
    by simp
  have 7: "''notes.txt'' \<noteq> []" by simp
  have e: "files empty_state = Map.empty" by (simp add: empty_state_def)
  show ?thesis
    using disallowed_extension_rejected[OF example_path example_headers example_multipart
        example_parse example_getitem 6 7 example_not_allowed, of empty_state]
    unfolding e .
qed

text \<open>
  C6. A GET whose path is \<^verbatim>\<open>/status\<close> is answered with status 200, the header
  \<^verbatim>\<open>Content-type: application/json\<close> and the body \<^verbatim>\<open>{"status": "ready"}\<close>, its 19
  bytes counted in \<^verbatim>\<open>Content-length\<close>; nothing else is done.
\<close>

theorem status_ready:
  assumes "path req = ''/status''"
  shows \<open>do_GET env fs req =
     [Send (Response 200
        [(''Content-type'', ''application/json''), (''Content-length'', ''19'')]
        ''{"status": "ready"}'')]\<close>
proof -
  have "do_GET env fs req = [send_json_response [(''status'', JStr ''ready'')] 200]"
    using assms by (simp add: do_GET_def)
  then show ?thesis
    by (simp add: send_json_response_def Let_def ready_body str_int_small)
qed

theorem status_ready_witness:
  \<open>do_GET (example_env ''Logo.PNG'') Map.empty \<lparr>path = ''/status'', headers = [], rfile = []\<rparr> =
     [Send (Response 200
        [(''Content-type'', ''application/json''), (''Content-length'', ''19'')]
        ''{"status": "ready"}'')]\<close>
proof -
  have 1: "path \<lparr>path = ''/status'', headers = [], rfile = []\<rparr> = ''/status''" by simp
  show ?thesis
    using status_ready[OF 1, of "example_env ''Logo.PNG''" Map.empty] .
qed

text \<open>
  C7. With no port argument, \<^verbatim>\<open>run_server\<close> calls \<^verbatim>\<open>find_available_port()\<close>, which
  tries to bind the ports 8080, 8081, ... in order, at most 100 of them (8080 to 8179),
  and returns the first that binds: it returns \<open>p\<close> exactly when \<open>p\<close> is in that range,
  binds, and no earlier port of the range binds. So with 8080 occupied and 8081 free it
  returns 8081, and the server is then created on the port returned. When none of the
  100 ports binds it raises RuntimeError, which nothing in \<^verbatim>\<open>run_server\<close> catches:
  startup ends there, before any server exists.
\<close>

theorem find_available_port_first_free:
  "(find_available_port bind 8080 100 = Inr p \<longleftrightarrow>
      8080 \<le> p \<and> p \<le> 8179 \<and> bind p \<and> (\<forall>q. 8080 \<le> q \<and> q < p \<longrightarrow> \<not> bind q))
   \<and> (\<not> bind 8080 \<and> bind 8081 \<longrightarrow> find_available_port bind 8080 100 = Inr 8081)
   \<and> (find_available_port bind 8080 100 = Inr p \<longrightarrow>
        snd (run_server bind httpd None) = (if httpd p = None then Serving p else Exit 1))
   \<and> ((\<forall>q. 8080 \<le> q \<and> q \<le> 8179 \<longrightarrow> \<not> bind q) \<longleftrightarrow>
        run_server bind httpd None =
          ([], Uncaught ''Could not find available port in range 8080-8180''))"
proof -
  have a: "find_available_port bind 8080 100 = Inr p \<longleftrightarrow>
      8080 \<le> p \<and> p \<le> 8179 \<and> bind p \<and> (\<forall>q. 8080 \<le> q \<and> q < p \<longrightarrow> \<not> bind q)"
    using find_available_port_Inr[of bind 8080 100 p] by simp
  have b: "\<not> bind 8080 \<and> bind 8081 \<longrightarrow> find_available_port bind 8080 100 = Inr 8081"
  proof
    assume h: "\<not> bind 8080 \<and> bind 8081"
    have "\<forall>q. 8080 \<le> q \<and> q < 8081 \<longrightarrow> \<not> bind q"
    proof (intro allI impI)
      fix q :: int assume "8080 \<le> q \<and> q < 8081"
      then have "q = 8080" by arith
      with h show "\<not> bind q" by simp
    qed
    with h show "find_available_port bind 8080 100 = Inr 8081"
      using find_available_port_Inr[of bind 8080 100 8081] by simp
  qed
  have c: "find_available_port bind 8080 100 = Inr p \<longrightarrow>
        snd (run_server bind httpd None) = (if httpd p = None then Serving p else Exit 1)"
    by (auto simp: run_server_def split: option.splits)
  have d: "(\<forall>q. 8080 \<le> q \<and> q \<le> 8179 \<longrightarrow> \<not> bind q) \<longleftrightarrow>
        run_server bind httpd None =
          ([], Uncaught ''Could not find available port in range 8080-8180'')"
  proof
    assume "\<forall>q. 8080 \<le> q \<and> q \<le> 8179 \<longrightarrow> \<not> bind q"
    then have "find_available_port bind 8080 100 =
        Inl ''Could not find available port in range 8080-8180''"
      using find_available_port_Inl[of bind 8080 100] range_message by simp
    then show "run_server bind httpd None =
          ([], Uncaught ''Could not find available port in range 8080-8180'')"
      by (simp add: run_server_def)
  next
    assume r: "run_server bind httpd None =
          ([], Uncaught ''Could not find available port in range 8080-8180'')"
    have "\<exists>e. find_available_port bind 8080 100 = Inl e"
    proof (cases "find_available_port bind 8080 100")
      case (Inl e)
      then show ?thesis by simp
    next
      case (Inr q)
      with r show ?thesis by (simp add: run_server_def split: option.splits)
    qed
    then show "\<forall>q. 8080 \<le> q \<and> q \<le> 8179 \<longrightarrow> \<not> bind q"
      using find_available_port_Inl[of bind 8080 100] by auto
  qed
  from a b c d show ?thesis by blast
qed

theorem find_available_port_first_free_witness:
  "find_available_port (\<lambda>p. p = 8081 \<or> p = 8090) 8080 100 = Inr 8081
   \<and> snd (run_server (\<lambda>p. p = 8081 \<or> p = 8090) (\<lambda>p. None) None) = Serving 8081
   \<and> run_server (\<lambda>p. False) (\<lambda>p. None) None =
       ([], Uncaught ''Could not find available port in range 8080-8180'')"
  using find_available_port_first_free[of "\<lambda>p. p = 8081 \<or> p = 8090" 8081 "\<lambda>p. None"]
    find_available_port_first_free[of "\<lambda>p. False" 8081 "\<lambda>p. None"]
  by simp

text \<open>
  C8. Two valid uploads, one after the other, each handled with no call failing: after
  the first, \<^verbatim>\<open>watermark.png\<close> holds the first payload; after the second it holds
  exactly the second payload and nothing of the first. There is one fixed path, opened
  for writing (so truncated) by every upload.
\<close>

theorem second_upload_overwrites:
  assumes "path req1 = ''/upload''"
    and "headers_get (headers req1) ''content-type'' = Some ct1"
    and "startswith ct1 ''multipart/form-data''"
    and "FieldStorage env1 req1 = Inr form1"
    and "form_getitem form1 ''file'' = Inr (Item fileitem1)"
    and "filename fileitem1 = Some fn1"
    and "list_ex (endswith (lower fn1)) allowed_extensions"
    and "length (fileobj fileitem1) \<le> 10485760"
    and "read_fails env1 = None"
    and "open_fails env1 ''watermark.png'' = None"
    and "write_fails env1 ''watermark.png'' = None"
    and "open_fails env1 ''upload_complete.flag'' = None"
    and "write_fails env1 ''upload_complete.flag'' = None"
    and "path req2 = ''/upload''"
    and "headers_get (headers req2) ''content-type'' = Some ct2"
    and "startswith ct2 ''multipart/form-data''"
    and "FieldStorage env2 req2 = Inr form2"
    and "form_getitem form2 ''file'' = Inr (Item fileitem2)"
    and "filename fileitem2 = Some fn2"
    and "list_ex (endswith (lower fn2)) allowed_extensions"
    and "length (fileobj fileitem2) \<le> 10485760"
    and "read_fails env2 = None"
    and "open_fails env2 ''watermark.png'' = None"
    and "write_fails env2 ''watermark.png'' = None"
    and "open_fails env2 ''upload_complete.flag'' = None"
    and "write_fails env2 ''upload_complete.flag'' = None"
  shows "files (serve s [(env1, POST, req1)]) ''watermark.png'' = Some (fileobj fileitem1)
       \<and> files (serve s [(env1, POST, req1), (env2, POST, req2)]) ''watermark.png'' =
           Some (fileobj fileitem2)"
proof -
  note e1 = valid_upload_effects[OF assms(2-13)]
  note e2 = valid_upload_effects[OF assms(15-26)]
  have s1: "files (run s (fst (handle_upload env1 req1))) ''watermark.png'' =
      Some (fileobj fileitem1)" for s
    unfolding e1 fst_conv run_valid_upload by simp
  have s2: "files (run s (fst (handle_upload env2 req2))) ''watermark.png'' =
      Some (fileobj fileitem2)" for s
    unfolding e2 fst_conv run_valid_upload by simp
  show ?thesis
    using assms(1,14) by (simp add: handle_request_def do_POST_def s1 s2)
qed

theorem second_upload_overwrites_witness:
  "files (serve empty_state
      [(example_env ''Logo.PNG'', POST, example_request ''multipart/form-data; boundary=x'' ''first upload''),
       (example_env ''Logo.PNG'', POST, example_request ''multipart/form-data; boundary=x'' ''second'')])
     ''watermark.png'' = Some ''second''"
proof -
  have a: "filename \<lparr>name = Some ''file'', filename = Some ''Logo.PNG'', fileobj = d\<rparr> = Some ''Logo.PNG''" for d
    by simp
  have b1: "length (fileobj \<lparr>name = Some ''file'', filename = Some ''Logo.PNG'', fileobj = ''first upload''\<rparr>) \<le> 10485760"
    by simp
  have b2: "length (fileobj \<lparr>name = Some ''file'', filename = Some ''Logo.PNG'', fileobj = ''second''\<rparr>) \<le> 10485760"
    by simp
  from second_upload_overwrites[OF
      example_path example_headers example_multipart example_parse example_getitem a
        example_allowed b1 example_no_fault example_no_fault(2,3)
      example_path example_headers example_multipart example_parse example_getitem a
        example_allowed b2 example_no_fault example_no_fault(2,3), of empty_state]
  show ?thesis by simp
qed




text \<open>
  C10. Whenever the upload handler sends a reply with status 400, it has sent one of the
  five rejections (bad content type, no \<^verbatim>\<open>file\<close> field, empty filename, extension not
  allowed, payload too large), and in that run none of its effects opens, writes or closes
  any file: every check stands before the first write. So the files, \<^verbatim>\<open>watermark.png\<close>
  and \<^verbatim>\<open>upload_complete.flag\<close> among them, are after the request what they were before
  it: none created, changed or removed.
\<close>

theorem rejection_leaves_files_alone:
  assumes "Send r \<in> set (fst (handle_upload env req))" and "status_of r = 400"
  shows "(\<exists>msg\<in>set [''Invalid content type'', ''No file uploaded'', ''No file selected'',
                    ''Invalid file type. Allowed: '' @ str_join '', '' allowed_extensions,
                    ''File too large (max 10MB)''].
            Send r = send_json_response [(''error'', JStr msg)] 400)
       \<and> (\<forall>e\<in>set (fst (handle_upload env req)). \<forall>p. \<not> touches p e)
       \<and> files (run s (fst (handle_upload env req))) = files s"
proof -
  from handle_upload_400[OF assms]
  have eq: "fst (handle_upload env req) = fst (handle_upload_try env req)"
    and r: "Send r \<in> set (fst (handle_upload_try env req))" by simp_all
  from handle_upload_try_400[OF r assms(2)]
  have msg: "\<exists>msg\<in>set [''Invalid content type'', ''No file uploaded'', ''No file selected'',
                    ''Invalid file type. Allowed: '' @ str_join '', '' allowed_extensions,
                    ''File too large (max 10MB)''].
            Send r = send_json_response [(''error'', JStr msg)] 400"
    and nt: "\<forall>e\<in>set (fst (handle_upload env req)). \<forall>p. \<not> touches p e"
    unfolding eq by blast+
  from nt have "files (run s (fst (handle_upload env req))) = files s"
    by (rule files_unchanged)
  with msg nt show ?thesis by blast
qed

theorem rejection_leaves_files_alone_witness:
  "fst (handle_upload ((example_env ''Logo.PNG'')\<lparr>FieldStorage := (\<lambda>req. Inr [])\<rparr>)
        (example_request ''multipart/form-data; boundary=x'' ''abc'')) =
     [ParseBody, send_json_response [(''error'', JStr ''No file uploaded'')] 400]
   \<and> files (run \<lparr>files = [''watermark.png'' \<mapsto> ''old''], sent = [], stdout = []\<rparr>
        (fst (handle_upload ((example_env ''Logo.PNG'')\<lparr>FieldStorage := (\<lambda>req. Inr [])\<rparr>)
           (example_request ''multipart/form-data; boundary=x'' ''abc'')))) =
       [''watermark.png'' \<mapsto> ''old'']"
proof -
  let ?env = "(example_env ''Logo.PNG'')\<lparr>FieldStorage := (\<lambda>req. Inr [])\<rparr>"
  let ?req = "example_request ''multipart/form-data; boundary=x'' ''abc''"
  let ?r = "Response 400 [(''Content-type'', ''application/json''),
      (''Content-length'', str_int (int (length (json_dumps [(''error'', JStr ''No file uploaded'')]))))]
      (json_dumps [(''error'', JStr ''No file uploaded'')])"
  have eq: "fst (handle_upload ?env ?req) =
      [ParseBody, send_json_response [(''error'', JStr ''No file uploaded'')] 400]"
    by (simp add: handle_upload_def handle_upload_try_def example_headers example_multipart
        form_contains_def)
  have 1: "Send ?r \<in> set (fst (handle_upload ?env ?req))"
    unfolding eq by (simp add: error_reply)
  have 2: "status_of ?r = 400" by simp
  from rejection_leaves_files_alone[OF 1 2,
      of "\<lparr>files = [''watermark.png'' \<mapsto> ''old''], sent = [], stdout = []\<rparr>"] eq
  show ?thesis by simp
qed

end
